theory Spec2Isabelle
  imports Complex_Main "HOL-Library.Word" "HOL-Library.Signed_Division"
begin

section \<open>rlgl.h: the immediate-mode render batch and the matrix stack\<close>

text \<open>
  A shallow embedding of the parts of \<^verbatim>\<open>src/rlgl.h\<close> that accumulate vertices into a
  render batch, split it into draw calls, flush it, and keep the matrix stack.

  Conventions of the embedding.
  \<^item> C \<^verbatim>\<open>int\<close> is \<open>int\<close>; the only place where the source can leave the range of a
    32-bit \<^verbatim>\<open>int\<close> with well-formed data is a loop bound of \<^verbatim>\<open>rlLoadRenderBatch\<close>, which the
    model turns into the error \<open>SignedOverflow\<close>. C's \<^verbatim>\<open>/\<close> and \<^verbatim>\<open>%\<close> are \<open>sdiv\<close> and
    \<open>smod\<close> (truncation towards zero).
  \<^item> C \<^verbatim>\<open>float\<close> and \<^verbatim>\<open>double\<close> are \<open>real\<close>: exact arithmetic, no rounding. Nothing below
    depends on rounding; statements that would are not made.
  \<^item> \<^verbatim>\<open>unsigned char\<close> is \<open>8 word\<close>, \<^verbatim>\<open>unsigned int\<close> is \<open>32 word\<close>.
  \<^item> A C array is a list. Writes whose index the source does not guard and that callers can
    drive out of range (the vertex arrays in \<^verbatim>\<open>rlVertex3f\<close>, the matrix stack in
    \<^verbatim>\<open>rlPushMatrix\<close>) are checked in the model and yield an error value, since the C behaviour
    is undefined there. Reads and writes of \<^verbatim>\<open>draws[drawCounter - 1]\<close> and
    \<^verbatim>\<open>vertexBuffer[currentBuffer]\<close> use \<open>!\<close> and list update; the theorems carry the
    allocation facts that keep them in range.
  \<^item> A pointer into a C array that is kept across a call (\<^verbatim>\<open>rlDrawCall *drawcall\<close>) is the
    index it points to, computed where the source computes the pointer.
  \<^item> \<^verbatim>\<open>rlTexture\<close> is an opaque handle with equality; \<open>0\<close> is the null handle.
  \<^item> Device calls (\<^verbatim>\<open>gl*\<close>) have no effect on the modelled state. The draw calls issued by
    a flush are returned as a list so that their offsets can be stated.
\<close>

subsection \<open>Constants\<close>

definition RL_DEFAULT_BATCH_DRAWCALLS :: int where
  "RL_DEFAULT_BATCH_DRAWCALLS = 256"

definition RL_DEFAULT_BATCH_MAX_TEXTURE_UNITS :: int where
  "RL_DEFAULT_BATCH_MAX_TEXTURE_UNITS = 4"

definition RL_MAX_MATRIX_STACK_SIZE :: int where
  "RL_MAX_MATRIX_STACK_SIZE = 32"

definition RL_MODELVIEW :: int where
  "RL_MODELVIEW = 0x1700"

definition RL_PROJECTION :: int where
  "RL_PROJECTION = 0x1701"

definition RL_TEXTURE :: int where
  "RL_TEXTURE = 0x1702"

definition RL_LINES :: int where
  "RL_LINES = 0x0001"

definition RL_TRIANGLES :: int where
  "RL_TRIANGLES = 0x0004"

definition RL_QUADS :: int where
  "RL_QUADS = 0x0007"

definition INT_MAX :: int where
  "INT_MAX = 2147483647"

definition INT_MIN :: int where
  "INT_MIN = - 2147483648"

subsection \<open>Data\<close>

text \<open>\<^verbatim>\<open>struct Matrix\<close>: 4x4, fields in the order of the C declaration.\<close>

record Matrix =
  m0 :: real
  m4 :: real
  m8 :: real
  m12 :: real
  m1 :: real
  m5 :: real
  m9 :: real
  m13 :: real
  m2 :: real
  m6 :: real
  m10 :: real
  m14 :: real
  m3 :: real
  m7 :: real
  m11 :: real
  m15 :: real

type_synonym rlTexture = nat

record rlVertexBuffer =
  elementCount :: int
  vertices :: "real list"
  texcoords :: "real list"
  colors :: "8 word list"
  indices :: "32 word list"

record rlDrawCall =
  mode :: int
  vertexCount :: int
  vertexAlignment :: int
  texture :: rlTexture

record rlRenderBatch =
  bufferCount :: int
  currentBuffer :: int
  vertexBuffer :: "rlVertexBuffer list"
  draws :: "rlDrawCall list"
  drawCounter :: int
  currentDepth :: real

text \<open>
  \<^verbatim>\<open>Matrix *currentMatrix\<close> only ever points at one of three matrices of the state.
\<close>

datatype MatrixRef = RefModelview | RefProjection | RefTransform

record rlViewportRect =
  vp_x :: int
  vp_y :: int
  vp_width :: int
  vp_height :: int

text \<open>
  \<^verbatim>\<open>RLGH.State\<close>. The shader, blending and scissor fields are left out: no modelled function
  reads or writes them.
\<close>

record rlState =
  vertexCounter :: int
  texcoordx :: real
  texcoordy :: real
  normalx :: real
  normaly :: real
  normalz :: real
  colorr :: "8 word"
  colorg :: "8 word"
  colorb :: "8 word"
  colora :: "8 word"
  currentMatrixMode :: int
  currentMatrix :: MatrixRef
  modelview :: Matrix
  projection :: Matrix
  transform :: Matrix
  transformRequired :: bool
  stack :: "Matrix list"
  stackCounter :: int
  defaultTexture :: rlTexture
  activeTextureId :: "rlTexture list"
  stereoRender :: bool
  projectionStereo :: "Matrix \<times> Matrix"
  viewOffsetStereo :: "Matrix \<times> Matrix"
  framebufferWidth :: int
  framebufferHeight :: int
  Viewport :: rlViewportRect

text \<open>The draw calls a flush issues to the device, in order.\<close>

datatype gl_call =
    GlBindTexture rlTexture
  | GlDrawArrays int int int
  | GlDrawElements int int

text \<open>
  \<^verbatim>\<open>RLGH\<close>: \<open>currentBatch\<close> holds the batch that \<^verbatim>\<open>RLGH.currentBatch\<close> points to, and
  \<open>gl_trace\<close> the draw calls issued to the device context so far.
\<close>

record rlGraphicsData =
  currentBatch :: rlRenderBatch
  State :: rlState
  gl_trace :: "gl_call list"

datatype rl_error =
    SignedOverflow
  | VertexWriteOutOfBounds int
  | StackWriteOutOfBounds int
  | StackReadOutOfBounds int

subsection \<open>Matrix math\<close>

definition rlMatrixIdentity :: Matrix where
  "rlMatrixIdentity =
     \<lparr> m0 = 1, m4 = 0, m8 = 0, m12 = 0,
       m1 = 0, m5 = 1, m9 = 0, m13 = 0,
       m2 = 0, m6 = 0, m10 = 1, m14 = 0,
       m3 = 0, m7 = 0, m11 = 0, m15 = 1 \<rparr>"

definition rlMatrixMultiply :: "Matrix \<Rightarrow> Matrix \<Rightarrow> Matrix" where
  "rlMatrixMultiply left right =
     \<lparr> m0 = m0 left * m0 right + m1 left * m4 right + m2 left * m8 right + m3 left * m12 right,
       m4 = m4 left * m0 right + m5 left * m4 right + m6 left * m8 right + m7 left * m12 right,
       m8 = m8 left * m0 right + m9 left * m4 right + m10 left * m8 right + m11 left * m12 right,
       m12 = m12 left * m0 right + m13 left * m4 right + m14 left * m8 right + m15 left * m12 right,
       m1 = m0 left * m1 right + m1 left * m5 right + m2 left * m9 right + m3 left * m13 right,
       m5 = m4 left * m1 right + m5 left * m5 right + m6 left * m9 right + m7 left * m13 right,
       m9 = m8 left * m1 right + m9 left * m5 right + m10 left * m9 right + m11 left * m13 right,
       m13 = m12 left * m1 right + m13 left * m5 right + m14 left * m9 right + m15 left * m13 right,
       m2 = m0 left * m2 right + m1 left * m6 right + m2 left * m10 right + m3 left * m14 right,
       m6 = m4 left * m2 right + m5 left * m6 right + m6 left * m10 right + m7 left * m14 right,
       m10 = m8 left * m2 right + m9 left * m6 right + m10 left * m10 right + m11 left * m14 right,
       m14 = m12 left * m2 right + m13 left * m6 right + m14 left * m10 right + m15 left * m14 right,
       m3 = m0 left * m3 right + m1 left * m7 right + m2 left * m11 right + m3 left * m15 right,
       m7 = m4 left * m3 right + m5 left * m7 right + m6 left * m11 right + m7 left * m15 right,
       m11 = m8 left * m3 right + m9 left * m7 right + m10 left * m11 right + m11 left * m15 right,
       m15 = m12 left * m3 right + m13 left * m7 right + m14 left * m11 right + m15 left * m15 right \<rparr>"

subsection \<open>The current matrix\<close>

fun get_currentMatrix :: "rlState \<Rightarrow> Matrix" where
  "get_currentMatrix S =
     (case currentMatrix S of
        RefModelview \<Rightarrow> modelview S
      | RefProjection \<Rightarrow> projection S
      | RefTransform \<Rightarrow> transform S)"

fun set_currentMatrix :: "Matrix \<Rightarrow> rlState \<Rightarrow> rlState" where
  "set_currentMatrix M S =
     (case currentMatrix S of
        RefModelview \<Rightarrow> S\<lparr>modelview := M\<rparr>
      | RefProjection \<Rightarrow> S\<lparr>projection := M\<rparr>
      | RefTransform \<Rightarrow> S\<lparr>transform := M\<rparr>)"

definition rlMatrixMode :: "int \<Rightarrow> rlState \<Rightarrow> rlState" where
  "rlMatrixMode md S =
     (let S1 = (if md = RL_PROJECTION then S\<lparr>currentMatrix := RefProjection\<rparr>
                else if md = RL_MODELVIEW then S\<lparr>currentMatrix := RefModelview\<rparr>
                else S)
      in S1\<lparr>currentMatrixMode := md\<rparr>)"

text \<open>
  \<^verbatim>\<open>rlPushMatrix\<close>. The overflow test only logs; the function then goes on to the store
  \<^verbatim>\<open>stack[stackCounter] = *currentMatrix\<close> and to \<^verbatim>\<open>stackCounter++\<close>. The store is the
  checked write: outside the array it is \<open>StackWriteOutOfBounds\<close>.
\<close>

definition rlPushMatrix :: "rlState \<Rightarrow> rl_error + rlState" where
  "rlPushMatrix S =
     (let S1 = (if currentMatrixMode S = RL_MODELVIEW
                then S\<lparr>transformRequired := True, currentMatrix := RefTransform\<rparr>
                else S)
      in if 0 \<le> stackCounter S1 \<and> stackCounter S1 < int (length (stack S1))
         then Inr (S1\<lparr>stack := (stack S1)[nat (stackCounter S1) := get_currentMatrix S1],
                      stackCounter := stackCounter S1 + 1\<rparr>)
         else Inl (StackWriteOutOfBounds (stackCounter S1)))"

definition rlPopMatrix :: "rlState \<Rightarrow> rl_error + rlState" where
  "rlPopMatrix S =
     (if stackCounter S > 0 \<and> \<not> stackCounter S - 1 < int (length (stack S))
      then Inl (StackReadOutOfBounds (stackCounter S - 1))
      else
        (let S1 = (if stackCounter S > 0
                   then (set_currentMatrix (stack S ! nat (stackCounter S - 1)) S)
                          \<lparr>stackCounter := stackCounter S - 1\<rparr>
                   else S)
         in Inr (if stackCounter S1 = 0 \<and> currentMatrixMode S1 = RL_MODELVIEW
                 then S1\<lparr>currentMatrix := RefModelview, transformRequired := False\<rparr>
                 else S1)))"

definition rlLoadIdentity :: "rlState \<Rightarrow> rlState" where
  "rlLoadIdentity S = set_currentMatrix rlMatrixIdentity S"

definition matTranslation :: "real \<Rightarrow> real \<Rightarrow> real \<Rightarrow> Matrix" where
  "matTranslation x y z =
     \<lparr> m0 = 1, m4 = 0, m8 = 0, m12 = x,
       m1 = 0, m5 = 1, m9 = 0, m13 = y,
       m2 = 0, m6 = 0, m10 = 1, m14 = z,
       m3 = 0, m7 = 0, m11 = 0, m15 = 1 \<rparr>"

definition rlTranslatef :: "real \<Rightarrow> real \<Rightarrow> real \<Rightarrow> rlState \<Rightarrow> rlState" where
  "rlTranslatef x y z S =
     set_currentMatrix (rlMatrixMultiply (matTranslation x y z) (get_currentMatrix S)) S"

definition DEG2RAD :: real where
  "DEG2RAD = pi / 180"

definition matRotation :: "real \<Rightarrow> real \<Rightarrow> real \<Rightarrow> real \<Rightarrow> Matrix" where
  "matRotation angle x0 y0 z0 =
     (let lengthSquared = x0 * x0 + y0 * y0 + z0 * z0;
          normalise = (lengthSquared \<noteq> 1 \<and> lengthSquared \<noteq> 0);
          inverseLength = 1 / sqrt lengthSquared;
          x = (if normalise then x0 * inverseLength else x0);
          y = (if normalise then y0 * inverseLength else y0);
          z = (if normalise then z0 * inverseLength else z0);
          sinres = sin (DEG2RAD * angle);
          cosres = cos (DEG2RAD * angle);
          t = 1 - cosres
      in \<lparr> m0 = x * x * t + cosres, m4 = x * y * t - z * sinres,
           m8 = x * z * t + y * sinres, m12 = 0,
           m1 = y * x * t + z * sinres, m5 = y * y * t + cosres,
           m9 = y * z * t - x * sinres, m13 = 0,
           m2 = z * x * t - y * sinres, m6 = z * y * t + x * sinres,
           m10 = z * z * t + cosres, m14 = 0,
           m3 = 0, m7 = 0, m11 = 0, m15 = 1 \<rparr>)"

definition rlRotatef :: "real \<Rightarrow> real \<Rightarrow> real \<Rightarrow> real \<Rightarrow> rlState \<Rightarrow> rlState" where
  "rlRotatef angle x y z S =
     set_currentMatrix (rlMatrixMultiply (matRotation angle x y z) (get_currentMatrix S)) S"

definition matScale :: "real \<Rightarrow> real \<Rightarrow> real \<Rightarrow> Matrix" where
  "matScale x y z =
     \<lparr> m0 = x, m4 = 0, m8 = 0, m12 = 0,
       m1 = 0, m5 = y, m9 = 0, m13 = 0,
       m2 = 0, m6 = 0, m10 = z, m14 = 0,
       m3 = 0, m7 = 0, m11 = 0, m15 = 1 \<rparr>"

definition rlScalef :: "real \<Rightarrow> real \<Rightarrow> real \<Rightarrow> rlState \<Rightarrow> rlState" where
  "rlScalef x y z S =
     set_currentMatrix (rlMatrixMultiply (matScale x y z) (get_currentMatrix S)) S"

text \<open>
  \<^verbatim>\<open>rlMultMatrixf\<close>: the argument is the array \<^verbatim>\<open>matf[0..15]\<close>; the initialiser fills the
  struct in declaration order, so field \<open>m\<^sub>i\<close> receives \<^verbatim>\<open>matf[i]\<close>.
\<close>

definition matFromArray :: "real list \<Rightarrow> Matrix" where
  "matFromArray matf =
     \<lparr> m0 = matf ! 0, m4 = matf ! 4, m8 = matf ! 8, m12 = matf ! 12,
       m1 = matf ! 1, m5 = matf ! 5, m9 = matf ! 9, m13 = matf ! 13,
       m2 = matf ! 2, m6 = matf ! 6, m10 = matf ! 10, m14 = matf ! 14,
       m3 = matf ! 3, m7 = matf ! 7, m11 = matf ! 11, m15 = matf ! 15 \<rparr>"

definition rlMultMatrixf :: "real list \<Rightarrow> rlState \<Rightarrow> rlState" where
  "rlMultMatrixf matf S =
     set_currentMatrix (rlMatrixMultiply (get_currentMatrix S) (matFromArray matf)) S"

definition matFrustum :: "real \<Rightarrow> real \<Rightarrow> real \<Rightarrow> real \<Rightarrow> real \<Rightarrow> real \<Rightarrow> Matrix" where
  "matFrustum lft rgt btm tp znear zfar =
     (let rl = rgt - lft; tb = tp - btm; fn = zfar - znear
      in \<lparr> m0 = (znear * 2) / rl, m4 = 0, m8 = (rgt + lft) / rl, m12 = 0,
           m1 = 0, m5 = (znear * 2) / tb, m9 = (tp + btm) / tb, m13 = 0,
           m2 = 0, m6 = 0, m10 = - (zfar + znear) / fn, m14 = - (zfar * znear * 2) / fn,
           m3 = 0, m7 = 0, m11 = - 1, m15 = 0 \<rparr>)"

definition rlFrustum :: "real \<Rightarrow> real \<Rightarrow> real \<Rightarrow> real \<Rightarrow> real \<Rightarrow> real \<Rightarrow> rlState \<Rightarrow> rlState" where
  "rlFrustum lft rgt btm tp znear zfar S =
     set_currentMatrix
       (rlMatrixMultiply (get_currentMatrix S) (matFrustum lft rgt btm tp znear zfar)) S"

definition matOrtho :: "real \<Rightarrow> real \<Rightarrow> real \<Rightarrow> real \<Rightarrow> real \<Rightarrow> real \<Rightarrow> Matrix" where
  "matOrtho lft rgt btm tp znear zfar =
     (let rl = rgt - lft; tb = tp - btm; fn = zfar - znear
      in \<lparr> m0 = 2 / rl, m4 = 0, m8 = 0, m12 = - (lft + rgt) / rl,
           m1 = 0, m5 = 2 / tb, m9 = 0, m13 = - (tp + btm) / tb,
           m2 = 0, m6 = 0, m10 = - 2 / fn, m14 = - (zfar + znear) / fn,
           m3 = 0, m7 = 0, m11 = 0, m15 = 1 \<rparr>)"

definition rlOrtho :: "real \<Rightarrow> real \<Rightarrow> real \<Rightarrow> real \<Rightarrow> real \<Rightarrow> real \<Rightarrow> rlState \<Rightarrow> rlState" where
  "rlOrtho lft rgt btm tp znear zfar S =
     set_currentMatrix
       (rlMatrixMultiply (get_currentMatrix S) (matOrtho lft rgt btm tp znear zfar)) S"

definition rlViewport :: "int \<Rightarrow> int \<Rightarrow> int \<Rightarrow> int \<Rightarrow> rlState \<Rightarrow> rlState" where
  "rlViewport x y width height S =
     S\<lparr>Viewport := \<lparr>vp_x = x, vp_y = y, vp_width = width, vp_height = height\<rparr>\<rparr>"

definition rlSetMatrixModelview :: "Matrix \<Rightarrow> rlState \<Rightarrow> rlState" where
  "rlSetMatrixModelview view S = S\<lparr>modelview := view\<rparr>"

definition rlSetMatrixProjection :: "Matrix \<Rightarrow> rlState \<Rightarrow> rlState" where
  "rlSetMatrixProjection proj S = S\<lparr>projection := proj\<rparr>"

subsection \<open>Loading a render batch\<close>

text \<open>
  The index loop of \<^verbatim>\<open>rlLoadRenderBatch\<close>:
  \<^verbatim>\<open>for (int j = 0; j < (6 * bufferElements); j += 6) { indices[j] = 4 * k; ...; k++; }\<close>
\<close>

function fill_indices :: "int \<Rightarrow> int \<Rightarrow> int \<Rightarrow> 32 word list \<Rightarrow> 32 word list" where
  "fill_indices j k bufferElements idx =
     (if j < 6 * bufferElements
      then fill_indices (j + 6) (k + 1) bufferElements
             (idx[nat j := word_of_int (4 * k),
                  nat (j + 1) := word_of_int (4 * k + 1),
                  nat (j + 2) := word_of_int (4 * k + 2),
                  nat (j + 3) := word_of_int (4 * k),
                  nat (j + 4) := word_of_int (4 * k + 2),
                  nat (j + 5) := word_of_int (4 * k + 3)])
      else idx)"
  by pat_completeness auto
termination
  by (relation "measure (\<lambda>(j, k, bufferElements, idx). nat (6 * bufferElements - j))") auto

text \<open>
  One iteration of the buffer loop. The arrays of positions, texture coordinates and colours
  are zeroed by the source; the index array comes from \<^verbatim>\<open>malloc\<close> and is then filled cell by
  cell, so the model starts it from zeros as well.
\<close>

definition load_vertex_buffer :: "int \<Rightarrow> rlVertexBuffer" where
  "load_vertex_buffer bufferElements =
     \<lparr> elementCount = bufferElements,
       vertices = replicate (nat (3 * 4 * bufferElements)) 0,
       texcoords = replicate (nat (2 * 4 * bufferElements)) 0,
       colors = replicate (nat (4 * 4 * bufferElements)) 0,
       indices = fill_indices 0 0 bufferElements (replicate (nat (6 * bufferElements)) 0) \<rparr>"

text \<open>
  \<^verbatim>\<open>rlLoadRenderBatch\<close>. The assignment \<^verbatim>\<open>RLGH.State.vertexCounter = 0\<close> stands inside the
  loop over the buffers, so it runs when \<open>numBuffers > 0\<close>. The largest loop bound,
  \<^verbatim>\<open>4 * 4 * bufferElements\<close>, is an \<^verbatim>\<open>int\<close> product.
\<close>

definition rlLoadRenderBatch ::
  "int \<Rightarrow> int \<Rightarrow> rlGraphicsData \<Rightarrow> rl_error + (rlRenderBatch \<times> rlGraphicsData)" where
  "rlLoadRenderBatch numBuffers bufferElements g =
     (if 0 < numBuffers \<and> (4 * 4 * bufferElements > INT_MAX \<or> 4 * 4 * bufferElements < INT_MIN)
      then Inl SignedOverflow
      else Inr
        (\<lparr> bufferCount = numBuffers,
            currentBuffer = 0,
            vertexBuffer = map (\<lambda>i. load_vertex_buffer bufferElements) [0..<nat numBuffers],
            draws = replicate (nat RL_DEFAULT_BATCH_DRAWCALLS)
                      \<lparr> mode = RL_QUADS, vertexCount = 0, vertexAlignment = 0,
                        texture = defaultTexture (State g) \<rparr>,
            drawCounter = 1,
            currentDepth = - 1 \<rparr>,
         if 0 < numBuffers then g\<lparr>State := (State g)\<lparr>vertexCounter := 0\<rparr>\<rparr> else g))"

subsection \<open>Flushing\<close>

text \<open>
  The draw loop of \<^verbatim>\<open>rlDrawRenderBatch\<close> over the entries \<open>i < drawCounter\<close>, with the
  running \<^verbatim>\<open>vertexOffset\<close>; \<^verbatim>\<open>sizeof(GLuint)\<close> is 4.
\<close>

fun draw_loop :: "rlDrawCall list \<Rightarrow> int \<Rightarrow> gl_call list" where
  "draw_loop [] vertexOffset = []"
| "draw_loop (d # ds) vertexOffset =
     GlBindTexture (texture d) #
     (if mode d = RL_LINES \<or> mode d = RL_TRIANGLES
      then GlDrawArrays (mode d) vertexOffset (vertexCount d)
      else GlDrawElements (vertexCount d sdiv 4 * 6) (vertexOffset sdiv 4 * 6 * 4)) #
     draw_loop ds (vertexOffset + (vertexCount d + vertexAlignment d))"

definition eye_matrix :: "Matrix \<times> Matrix \<Rightarrow> int \<Rightarrow> Matrix" where
  "eye_matrix ms eye = (if eye = 0 then fst ms else snd ms)"

definition draw_eye ::
  "rlRenderBatch \<Rightarrow> Matrix \<Rightarrow> int \<Rightarrow> int \<Rightarrow> rlState \<Rightarrow> gl_call list \<times> rlState" where
  "draw_eye batch matModelView eyeCount eye S =
     (let S1 = (if eyeCount = 2
                then rlSetMatrixProjection (eye_matrix (projectionStereo S) eye)
                       (rlSetMatrixModelview
                          (rlMatrixMultiply matModelView (eye_matrix (viewOffsetStereo S) eye))
                          (rlViewport ((eye * framebufferWidth S) sdiv 2) 0
                             (framebufferWidth S sdiv 2) (framebufferHeight S) S))
                else S)
      in (if vertexCounter S1 > 0
          then draw_loop (take (nat (drawCounter batch)) (draws batch)) 0
          else [],
          S1))"

fun draw_eyes ::
  "rlRenderBatch \<Rightarrow> Matrix \<Rightarrow> int \<Rightarrow> int list \<Rightarrow> rlState \<Rightarrow> gl_call list \<times> rlState" where
  "draw_eyes batch matModelView eyeCount [] S = ([], S)"
| "draw_eyes batch matModelView eyeCount (eye # eyes) S =
     (let (calls, S1) = draw_eye batch matModelView eyeCount eye S;
          (calls', S2) = draw_eyes batch matModelView eyeCount eyes S1
      in (calls @ calls', S2))"

definition reset_draw :: "rlTexture \<Rightarrow> rlDrawCall \<Rightarrow> rlDrawCall" where
  "reset_draw t d = d\<lparr>mode := RL_QUADS, vertexCount := 0, texture := t\<rparr>"

text \<open>
  \<^verbatim>\<open>rlDrawRenderBatch(batch)\<close>: issue, then reset. The reset loop runs over the whole
  \<^verbatim>\<open>draws\<close> array and does not touch \<^verbatim>\<open>vertexAlignment\<close>.
\<close>

definition rlDrawRenderBatch ::
  "rlRenderBatch \<Rightarrow> rlState \<Rightarrow> gl_call list \<times> rlRenderBatch \<times> rlState" where
  "rlDrawRenderBatch batch S =
     (let matProjection = projection S;
          matModelView = modelview S;
          eyeCount = (if stereoRender S then 2 else 1);
          (calls, S1) = draw_eyes batch matModelView eyeCount (map int [0..<nat eyeCount]) S;
          S2 = (if eyeCount = 2
                then rlViewport 0 0 (framebufferWidth S1) (framebufferHeight S1) S1
                else S1);
          S3 = S2\<lparr>vertexCounter := 0\<rparr>;
          batch1 = batch\<lparr>currentDepth := - 1\<rparr>;
          S4 = S3\<lparr>projection := matProjection, modelview := matModelView\<rparr>;
          batch2 = batch1\<lparr>draws := map (reset_draw (defaultTexture S4)) (draws batch1)\<rparr>;
          S5 = S4\<lparr>activeTextureId := replicate (nat RL_DEFAULT_BATCH_MAX_TEXTURE_UNITS) 0\<rparr>;
          batch3 = batch2\<lparr>drawCounter := 1\<rparr>;
          batch4 = batch3\<lparr>currentBuffer := currentBuffer batch3 + 1\<rparr>;
          batch5 = (if currentBuffer batch4 \<ge> bufferCount batch4
                    then batch4\<lparr>currentBuffer := 0\<rparr> else batch4)
      in (calls, batch5, S5))"

text \<open>\<^verbatim>\<open>rlDrawRenderBatchActive\<close>, that is \<^verbatim>\<open>rlDrawRenderBatch(RLGH.currentBatch)\<close>.\<close>

definition rlDrawRenderBatchActive :: "rlGraphicsData \<Rightarrow> rlGraphicsData" where
  "rlDrawRenderBatchActive g =
     (let (calls, batch, S) = rlDrawRenderBatch (currentBatch g) (State g)
      in g\<lparr>currentBatch := batch, State := S, gl_trace := gl_trace g @ calls\<rparr>)"

subsection \<open>Draw-call entries of the active batch\<close>

definition draw_at :: "rlGraphicsData \<Rightarrow> int \<Rightarrow> rlDrawCall" where
  "draw_at g i = draws (currentBatch g) ! nat i"

definition update_draw ::
  "int \<Rightarrow> (rlDrawCall \<Rightarrow> rlDrawCall) \<Rightarrow> rlGraphicsData \<Rightarrow> rlGraphicsData" where
  "update_draw i f g =
     g\<lparr>currentBatch := (currentBatch g)
         \<lparr>draws := (draws (currentBatch g))[nat i := f (draws (currentBatch g) ! nat i)]\<rparr>\<rparr>"

text \<open>The entry in progress: \<^verbatim>\<open>draws[drawCounter - 1]\<close>.\<close>

definition current_draw :: "rlGraphicsData \<Rightarrow> rlDrawCall" where
  "current_draw g = draw_at g (drawCounter (currentBatch g) - 1)"

definition current_vertex_buffer :: "rlGraphicsData \<Rightarrow> rlVertexBuffer" where
  "current_vertex_buffer g =
     vertexBuffer (currentBatch g) ! nat (currentBuffer (currentBatch g))"

text \<open>
  \<^verbatim>\<open>rlCheckRenderBatchLimit\<close>. The source names \<^verbatim>\<open>vertex_buffer\<close> without declaring it; it
  is read as the buffer \<^verbatim>\<open>rlVertex3f\<close> declares under that name,
  \<^verbatim>\<open>&currentBatch->vertexBuffer[currentBatch->currentBuffer]\<close>. The pointer \<^verbatim>\<open>drawcall\<close> is
  taken before the flush and written through after it.
\<close>

definition rlCheckRenderBatchLimit :: "int \<Rightarrow> rlGraphicsData \<Rightarrow> bool \<times> rlGraphicsData" where
  "rlCheckRenderBatchLimit vCount g =
     (if vertexCounter (State g) + vCount \<ge> elementCount (current_vertex_buffer g) * 4
      then
        (let drawcall = drawCounter (currentBatch g) - 1;
             currentMode = mode (draw_at g drawcall);
             currentTexture = texture (draw_at g drawcall);
             g1 = rlDrawRenderBatchActive g
         in (True, update_draw drawcall (\<lambda>d. d\<lparr>mode := currentMode, texture := currentTexture\<rparr>) g1))
      else (False, g))"

subsection \<open>Vertex level operations\<close>

text \<open>The alignment expression that \<^verbatim>\<open>rlBegin\<close> and \<^verbatim>\<open>rlSetTexture\<close> both spell out.\<close>

definition alignment_for :: "int \<Rightarrow> int \<Rightarrow> int" where
  "alignment_for md vertex_count =
     (if md = RL_LINES then (if vertex_count < 4 then vertex_count else vertex_count smod 4)
      else if md = RL_TRIANGLES then (if vertex_count < 4 then 1 else 4 - (vertex_count smod 4))
      else 0)"

text \<open>
  \<^verbatim>\<open>rlBegin(mode)\<close>. The source declares \<^verbatim>\<open>int vertex_count = vertex_count;\<close>: the local is
  initialised from itself, so its value is indeterminate, and the later \<^verbatim>\<open>vertex_count = 0\<close>
  assigns the local, not \<^verbatim>\<open>drawcall->vertexCount\<close>. The indeterminate value is the second
  argument of the model.
\<close>

definition rlBegin :: "int \<Rightarrow> int \<Rightarrow> rlGraphicsData \<Rightarrow> rlGraphicsData" where
  "rlBegin md vertex_count g =
     (let drawcall = drawCounter (currentBatch g) - 1
      in if mode (draw_at g drawcall) \<noteq> md
         then
           (let (drawcall1, g1) =
                  (if vertex_count > 0
                   then
                     (let ga = update_draw drawcall
                                 (\<lambda>d. d\<lparr>vertexAlignment := alignment_for (mode d) vertex_count\<rparr>) g;
                          (overflow, gb) =
                             rlCheckRenderBatchLimit (vertexAlignment (draw_at ga drawcall)) ga
                      in if \<not> overflow
                         then
                           (let gc = gb\<lparr>State := (State gb)
                                         \<lparr>vertexCounter := vertexCounter (State gb)
                                            + vertexAlignment (draw_at gb drawcall)\<rparr>\<rparr>;
                                gd = gc\<lparr>currentBatch := (currentBatch gc)
                                         \<lparr>drawCounter := drawCounter (currentBatch gc) + 1\<rparr>\<rparr>
                            in (drawCounter (currentBatch gd) - 1, gd))
                         else (drawcall, gb))
                   else (drawcall, g));
                g2 = (if drawCounter (currentBatch g1) \<ge> RL_DEFAULT_BATCH_DRAWCALLS
                      then rlDrawRenderBatchActive g1 else g1)
            in update_draw drawcall1
                 (\<lambda>d. d\<lparr>mode := md, texture := defaultTexture (State g2)\<rparr>) g2)
         else g)"

definition rlEnd :: "rlGraphicsData \<Rightarrow> rlGraphicsData" where
  "rlEnd g =
     g\<lparr>currentBatch := (currentBatch g)
         \<lparr>currentDepth := currentDepth (currentBatch g) + (1 / 20000)\<rparr>\<rparr>"

text \<open>
  \<^verbatim>\<open>rlVertex3f\<close>, first part: the limit test before the vertex is stored.
\<close>

definition rlVertex3f_limit :: "rlGraphicsData \<Rightarrow> rlGraphicsData" where
  "rlVertex3f_limit g =
     (let drawcall = current_draw g;
          vertex_buffer = current_vertex_buffer g;
          vertex_counter = vertexCounter (State g);
          vertex_count = vertexCount drawcall
      in if vertex_counter > elementCount vertex_buffer * 4 - 4
         then
           (if mode drawcall = RL_LINES \<and> vertex_count smod 2 = 0
            then snd (rlCheckRenderBatchLimit (2 + 1) g)
            else if mode drawcall = RL_TRIANGLES \<and> vertex_count smod 3 = 0
            then snd (rlCheckRenderBatchLimit (3 + 1) g)
            else if mode drawcall = RL_QUADS \<and> vertex_count smod 4 = 0
            then snd (rlCheckRenderBatchLimit (4 + 1) g)
            else g)
         else g)"

text \<open>
  Second part: the stores at \<^verbatim>\<open>vertex_counter\<close> into the three arrays of the current buffer
  and the two increments. The pointers and counters are read again after the limit test, as in
  the source.
\<close>

definition rlVertex3f_store ::
  "real \<Rightarrow> real \<Rightarrow> real \<Rightarrow> rlGraphicsData \<Rightarrow> rl_error + rlGraphicsData" where
  "rlVertex3f_store tx ty tz g =
     (let batch = currentBatch g;
          S = State g;
          drawcall = drawCounter batch - 1;
          vertex_buffer = current_vertex_buffer g;
          vertex_counter = vertexCounter S
      in if 0 \<le> vertex_counter
            \<and> 3 * vertex_counter + 2 < int (length (vertices vertex_buffer))
            \<and> 2 * vertex_counter + 1 < int (length (texcoords vertex_buffer))
            \<and> 4 * vertex_counter + 3 < int (length (colors vertex_buffer))
         then
           (let vb = vertex_buffer
                  \<lparr>vertices := (vertices vertex_buffer)
                       [nat (3 * vertex_counter + 0) := tx,
                        nat (3 * vertex_counter + 1) := ty,
                        nat (3 * vertex_counter + 2) := tz],
                   texcoords := (texcoords vertex_buffer)
                       [nat (2 * vertex_counter + 0) := texcoordx S,
                        nat (2 * vertex_counter + 1) := texcoordy S],
                   colors := (colors vertex_buffer)
                       [nat (4 * vertex_counter + 0) := colorr S,
                        nat (4 * vertex_counter + 1) := colorg S,
                        nat (4 * vertex_counter + 2) := colorb S,
                        nat (4 * vertex_counter + 3) := colora S]\<rparr>;
                g1 = g\<lparr>currentBatch := batch
                        \<lparr>vertexBuffer := (vertexBuffer batch)[nat (currentBuffer batch) := vb]\<rparr>,
                      State := S\<lparr>vertexCounter := vertex_counter + 1\<rparr>\<rparr>
            in Inr (update_draw drawcall (\<lambda>d. d\<lparr>vertexCount := vertexCount d + 1\<rparr>) g1))
         else Inl (VertexWriteOutOfBounds vertex_counter))"

definition rlVertex3f :: "real \<Rightarrow> real \<Rightarrow> real \<Rightarrow> rlGraphicsData \<Rightarrow> rl_error + rlGraphicsData" where
  "rlVertex3f x y z g =
     (let tr = transform (State g);
          (tx, ty, tz) =
             (if transformRequired (State g)
              then (m0 tr * x + m4 tr * y + m8 tr * z + m12 tr,
                    m1 tr * x + m5 tr * y + m9 tr * z + m13 tr,
                    m2 tr * x + m6 tr * y + m10 tr * z + m14 tr)
              else (x, y, z))
      in rlVertex3f_store tx ty tz (rlVertex3f_limit g))"

definition rlVertex2f :: "real \<Rightarrow> real \<Rightarrow> rlGraphicsData \<Rightarrow> rl_error + rlGraphicsData" where
  "rlVertex2f x y g = rlVertex3f x y (currentDepth (currentBatch g)) g"

text \<open>
  \<^verbatim>\<open>rlSetTexture(texture)\<close>; \<open>None\<close> is the null pointer.
\<close>

definition rlSetTexture :: "rlTexture option \<Rightarrow> rlGraphicsData \<Rightarrow> rlGraphicsData" where
  "rlSetTexture tex g =
     (case tex of
        None \<Rightarrow>
          (if vertexCounter (State g) \<ge> elementCount (current_vertex_buffer g) * 4
           then rlDrawRenderBatchActive g else g)
      | Some t \<Rightarrow>
          (let drawcall = drawCounter (currentBatch g) - 1
           in if texture (draw_at g drawcall) \<noteq> t
              then
                (let vertex_count = vertexCount (draw_at g drawcall);
                     (drawcall1, g1) =
                       (if vertex_count > 0
                        then
                          (let ga = update_draw drawcall
                                      (\<lambda>d. d\<lparr>vertexAlignment := alignment_for (mode d) vertex_count\<rparr>) g;
                               (overflow, gb) =
                                  rlCheckRenderBatchLimit (vertexAlignment (draw_at ga drawcall)) ga
                           in if \<not> overflow
                              then
                                (let gc = gb\<lparr>State := (State gb)
                                              \<lparr>vertexCounter := vertexCounter (State gb)
                                                 + vertexAlignment (draw_at gb drawcall)\<rparr>\<rparr>;
                                     gd = gc\<lparr>currentBatch := (currentBatch gc)
                                              \<lparr>drawCounter := drawCounter (currentBatch gc) + 1\<rparr>\<rparr>
                                 in (drawCounter (currentBatch gd) - 1, gd))
                              else (drawcall, gb))
                        else (drawcall, g));
                     g2 = (if drawCounter (currentBatch g1) \<ge> RL_DEFAULT_BATCH_DRAWCALLS
                           then rlDrawRenderBatchActive g1 else g1)
                 in update_draw drawcall1 (\<lambda>d. d\<lparr>texture := t, vertexCount := 0\<rparr>) g2)
              else g))"

subsection \<open>Initialisation and call sequences\<close>

definition zeroMatrix :: Matrix where
  "zeroMatrix =
     \<lparr> m0 = 0, m4 = 0, m8 = 0, m12 = 0,
       m1 = 0, m5 = 0, m9 = 0, m13 = 0,
       m2 = 0, m6 = 0, m10 = 0, m14 = 0,
       m3 = 0, m7 = 0, m11 = 0, m15 = 0 \<rparr>"

text \<open>
  \<^verbatim>\<open>static rlGraphicsData RLGH = { 0 }\<close>. The null \<^verbatim>\<open>currentBatch\<close> is a batch without
  buffers and without draw-call entries; the null \<^verbatim>\<open>currentMatrix\<close> is set by \<^verbatim>\<open>rlglInit\<close>
  before any use.
\<close>

definition RLGH_zero :: rlGraphicsData where
  "RLGH_zero =
     \<lparr> currentBatch =
         \<lparr> bufferCount = 0, currentBuffer = 0, vertexBuffer = [], draws = [],
           drawCounter = 0, currentDepth = 0 \<rparr>,
       State =
         \<lparr> vertexCounter = 0, texcoordx = 0, texcoordy = 0,
           normalx = 0, normaly = 0, normalz = 0,
           colorr = 0, colorg = 0, colorb = 0, colora = 0,
           currentMatrixMode = 0, currentMatrix = RefModelview,
           modelview = zeroMatrix, projection = zeroMatrix, transform = zeroMatrix,
           transformRequired = False,
           stack = replicate (nat RL_MAX_MATRIX_STACK_SIZE) zeroMatrix, stackCounter = 0,
           defaultTexture = 0,
           activeTextureId = replicate (nat RL_DEFAULT_BATCH_MAX_TEXTURE_UNITS) 0,
           stereoRender = False,
           projectionStereo = (zeroMatrix, zeroMatrix),
           viewOffsetStereo = (zeroMatrix, zeroMatrix),
           framebufferWidth = 0, framebufferHeight = 0,
           Viewport = \<lparr>vp_x = 0, vp_y = 0, vp_width = 0, vp_height = 0\<rparr> \<rparr>,
       gl_trace = [] \<rparr>"

text \<open>
  \<^verbatim>\<open>rlglInit(width, height)\<close>, the part that sets the modelled state. The macros
  \<^verbatim>\<open>RL_DEFAULT_BATCH_BUFFERS\<close> and \<^verbatim>\<open>RL_DEFAULT_BATCH_BUFFER_ELEMENTS\<close> can be set by the
  build (\<^verbatim>\<open>#ifndef\<close>) and are arguments here, as is the handle that \<^verbatim>\<open>rlLoadTexture\<close>
  returns for the default texture.
\<close>

definition rlglInit :: "int \<Rightarrow> int \<Rightarrow> rlTexture \<Rightarrow> int \<Rightarrow> int \<Rightarrow> rl_error + rlGraphicsData" where
  "rlglInit batchBuffers batchBufferElements defaultTex width height =
     (let g0 = RLGH_zero\<lparr>State := (State RLGH_zero)\<lparr>defaultTexture := defaultTex\<rparr>\<rparr>
      in case rlLoadRenderBatch batchBuffers batchBufferElements g0 of
           Inl e \<Rightarrow> Inl e
         | Inr (batch, g1) \<Rightarrow>
             Inr (g1\<lparr>currentBatch := batch,
                     State := (State g1)
                       \<lparr>stack := replicate (nat RL_MAX_MATRIX_STACK_SIZE) rlMatrixIdentity,
                        transform := rlMatrixIdentity,
                        projection := rlMatrixIdentity,
                        modelview := rlMatrixIdentity,
                        currentMatrix := RefModelview,
                        framebufferWidth := width,
                        framebufferHeight := height\<rparr>\<rparr>))"

text \<open>
  Calls of the vertex API as data, to state properties of call sequences. \<open>Begin md u\<close>
  carries the indeterminate value \<open>u\<close> that \<^verbatim>\<open>rlBegin\<close> reads.
\<close>

datatype rl_call =
    Begin int int
  | End
  | Vertex3f real real real
  | SetTexture "rlTexture option"
  | DrawRenderBatchActive

fun rl_step :: "rl_call \<Rightarrow> rlGraphicsData \<Rightarrow> rl_error + rlGraphicsData" where
  "rl_step (Begin md u) g = Inr (rlBegin md u g)"
| "rl_step End g = Inr (rlEnd g)"
| "rl_step (Vertex3f x y z) g = rlVertex3f x y z g"
| "rl_step (SetTexture t) g = Inr (rlSetTexture t g)"
| "rl_step DrawRenderBatchActive g = Inr (rlDrawRenderBatchActive g)"

fun rl_run :: "rl_call list \<Rightarrow> rlGraphicsData \<Rightarrow> rl_error + rlGraphicsData" where
  "rl_run [] g = Inr g"
| "rl_run (c # cs) g = (case rl_step c g of Inl e \<Rightarrow> Inl e | Inr g1 \<Rightarrow> rl_run cs g1)"

fun rl_run_from :: "rl_call list \<Rightarrow> rl_error + rlGraphicsData \<Rightarrow> rl_error + rlGraphicsData" where
  "rl_run_from cs (Inl e) = Inl e"
| "rl_run_from cs (Inr g) = rl_run cs g"

subsection \<open>Stereo rendering switches\<close>

definition rlEnableStereoRender :: "rlState \<Rightarrow> rlState" where
  "rlEnableStereoRender S = S\<lparr>stereoRender := True\<rparr>"

definition rlSetMatrixProjectionStereo :: "Matrix \<Rightarrow> Matrix \<Rightarrow> rlState \<Rightarrow> rlState" where
  "rlSetMatrixProjectionStereo rgt lft S = S\<lparr>projectionStereo := (rgt, lft)\<rparr>"

definition rlSetMatrixViewOffsetStereo :: "Matrix \<Rightarrow> Matrix \<Rightarrow> rlState \<Rightarrow> rlState" where
  "rlSetMatrixViewOffsetStereo rgt lft S = S\<lparr>viewOffsetStereo := (rgt, lft)\<rparr>"

subsection \<open>Concrete renderers used as test inputs\<close>

text \<open>
  The renderer after \<^verbatim>\<open>rlglInit(640, 480)\<close> in a build with one batch buffer of two quads
  (eight vertices), default texture handle 1.
\<close>

definition renderer_1x2 :: rlGraphicsData where
  "renderer_1x2 = (case rlglInit 1 2 1 640 480 of Inr g \<Rightarrow> g | Inl e \<Rightarrow> RLGH_zero)"

text \<open>\<open>n\<close> calls of \<^verbatim>\<open>rlVertex3f(0, 0, 0)\<close>.\<close>

definition vertices_n :: "nat \<Rightarrow> rl_call list" where
  "vertices_n n = replicate n (Vertex3f 0 0 0)"

fun rlPushMatrix_times :: "nat \<Rightarrow> rlState \<Rightarrow> rl_error + rlState" where
  "rlPushMatrix_times 0 S = Inr S"
| "rlPushMatrix_times (Suc n) S =
     (case rlPushMatrix S of Inl e \<Rightarrow> Inl e | Inr S1 \<Rightarrow> rlPushMatrix_times n S1)"

text \<open>A state whose current matrix is the projection matrix, holding a scaling by 2 along x.\<close>

definition projection_scaled :: rlState where
  "projection_scaled =
     rlMatrixMode RL_PROJECTION ((State renderer_1x2)\<lparr>projection := matScale 2 1 1\<rparr>)"

text \<open>
  A renderer with two batch buffers in stereo mode, six vertices in two draw-call entries
  pending.
\<close>

definition stereo_renderer :: rlGraphicsData where
  "stereo_renderer =
     (case rl_run_from (vertices_n 4 @ [SetTexture (Some 5)] @ vertices_n 2)
             (rlglInit 2 2 1 640 480) of
        Inl e \<Rightarrow> RLGH_zero
      | Inr g \<Rightarrow>
          g\<lparr>State :=
              rlSetMatrixViewOffsetStereo (matTranslation 1 0 0) (matTranslation (- 1) 0 0)
                (rlSetMatrixProjectionStereo (matScale 2 1 1) (matScale 3 1 1)
                   (rlEnableStereoRender (State g)))\<rparr>)"

text \<open>The renderer with three vertices stored and not yet flushed.\<close>

definition three_pending :: rlGraphicsData where
  "three_pending = (case rl_run (vertices_n 3) renderer_1x2 of Inr g \<Rightarrow> g | Inl e \<Rightarrow> RLGH_zero)"

text \<open>
  On \<open>renderer_1x2\<close>: one full quad with the default texture, then one full quad with
  texture 5. The buffer of eight vertices is full and the entry in progress is the second one.
\<close>

definition two_full_quads :: rlGraphicsData where
  "two_full_quads =
     (case rl_run (vertices_n 4 @ [SetTexture (Some 5)] @ vertices_n 4) renderer_1x2 of
        Inr g \<Rightarrow> g | Inl e \<Rightarrow> RLGH_zero)"

text \<open>
  On \<open>renderer_1x2\<close>: one quad, then a complete line with texture 5 in a second entry.
\<close>

definition pending_line :: rlGraphicsData where
  "pending_line =
     (case rl_run (vertices_n 4 @ [SetTexture (Some 5), Begin RL_LINES 0, SetTexture (Some 5)]
                    @ vertices_n 2) renderer_1x2 of
        Inr g \<Rightarrow> g | Inl e \<Rightarrow> RLGH_zero)"

text \<open>
  On \<open>renderer_1x2\<close>: eight vertices emitted under three modes, each \<^verbatim>\<open>rlBegin\<close> reading 0
  from its uninitialised local.
\<close>

definition eight_unflushed :: rlGraphicsData where
  "eight_unflushed =
     (case rl_run ([Begin RL_LINES 0] @ vertices_n 6 @ [Begin RL_QUADS 0] @ vertices_n 2
                    @ [Begin RL_TRIANGLES 0]) renderer_1x2 of
        Inr g \<Rightarrow> g | Inl e \<Rightarrow> RLGH_zero)"

text \<open>The same build with a buffer of four quads (sixteen vertices).\<close>

definition renderer_1x4 :: rlGraphicsData where
  "renderer_1x4 = (case rlglInit 1 4 1 640 480 of Inr g \<Rightarrow> g | Inl e \<Rightarrow> RLGH_zero)"

text \<open>On \<open>renderer_1x4\<close>: a TRIANGLES entry with five vertices.\<close>

definition five_triangle_vertices :: rlGraphicsData where
  "five_triangle_vertices =
     (case rl_run ([Begin RL_TRIANGLES 0] @ vertices_n 5) renderer_1x4 of
        Inr g \<Rightarrow> g | Inl e \<Rightarrow> RLGH_zero)"

text \<open>The draw calls that a final flush adds after \<open>cs\<close> has run on \<open>g\<close>.\<close>

definition trace_after :: "rl_call list \<Rightarrow> rlGraphicsData \<Rightarrow> gl_call list" where
  "trace_after cs g =
     (case rl_run (cs @ [DrawRenderBatchActive]) g of Inr g' \<Rightarrow> gl_trace g' | Inl e \<Rightarrow> [])"

section \<open>Properties\<close>

subsection \<open>The current matrix\<close>

lemma get_set_currentMatrix [simp]: "get_currentMatrix (set_currentMatrix M S) = M"
  by (cases "currentMatrix S") simp_all

lemma currentMatrix_set_currentMatrix [simp]:
  "currentMatrix (set_currentMatrix M S) = currentMatrix S"
  by (cases "currentMatrix S") simp_all

subsection \<open>Matrix stack overflow\<close>

lemma rlPushMatrix_full:
  "int (length (stack S)) \<le> stackCounter S \<Longrightarrow>
   rlPushMatrix S = Inl (StackWriteOutOfBounds (stackCounter S))"
  by (simp add: rlPushMatrix_def Let_def)

text \<open>
  C8. The claim: a push at the maximum stack depth is dropped and leaves the stack and its
  counter unchanged. The code does not do so. After 32 pushes from the initial state the
  counter is \<^verbatim>\<open>RL_MAX_MATRIX_STACK_SIZE\<close>; the next \<^verbatim>\<open>rlPushMatrix\<close> logs the overflow and
  then still executes \<^verbatim>\<open>stack[32] = *currentMatrix\<close>, a store one past the array, followed
  by the increment of the counter.
\<close>

theorem rlPushMatrix_overflow_not_dropped:
  "(case rlPushMatrix_times 32 (State renderer_1x2) of
      Inl e \<Rightarrow> False
    | Inr S \<Rightarrow> stackCounter S = RL_MAX_MATRIX_STACK_SIZE
              \<and> int (length (stack S)) = RL_MAX_MATRIX_STACK_SIZE
              \<and> rlPushMatrix S = Inl (StackWriteOutOfBounds 32)
              \<and> rlPushMatrix S \<noteq> Inr S)"
  by code_simp

subsection \<open>Order of the matrix products\<close>

text \<open>
  C9, the claim as stated: translate, rotate, scale, frustum and ortho all multiply on the
  same side and \<^verbatim>\<open>rlMultMatrixf\<close> alone on the other. It fails whichever argument order of
  \<^verbatim>\<open>rlMatrixMultiply\<close> the product \<open>X \<times> current\<close> stands for: with
  \<open>rlMatrixMultiply X current\<close> it fails for \<^verbatim>\<open>rlOrtho\<close>, with
  \<open>rlMatrixMultiply current X\<close> it fails for \<^verbatim>\<open>rlTranslatef\<close>.
\<close>

theorem premultiply_all_but_multMatrixf_counterexample:
  "get_currentMatrix (rlOrtho 0 2 0 2 (- 1) 1 projection_scaled)
     \<noteq> rlMatrixMultiply (matOrtho 0 2 0 2 (- 1) 1) (get_currentMatrix projection_scaled)
   \<and> get_currentMatrix (rlTranslatef 1 0 0 projection_scaled)
     \<noteq> rlMatrixMultiply (get_currentMatrix projection_scaled) (matTranslation 1 0 0)"
  by (simp add: projection_scaled_def rlMatrixMode_def rlOrtho_def rlTranslatef_def
      matOrtho_def matTranslation_def matScale_def rlMatrixMultiply_def Let_def
      RL_PROJECTION_def RL_MODELVIEW_def)

text \<open>
  C9, amended. \<^verbatim>\<open>rlTranslatef\<close>, \<^verbatim>\<open>rlRotatef\<close> and \<^verbatim>\<open>rlScalef\<close> replace the current matrix
  by \<open>rlMatrixMultiply X current\<close>; \<^verbatim>\<open>rlMultMatrixf\<close>, \<^verbatim>\<open>rlFrustum\<close> and \<^verbatim>\<open>rlOrtho\<close>
  replace it by \<open>rlMatrixMultiply current X\<close>. None of them retargets the current matrix.
\<close>

theorem matrix_product_sides:
  "get_currentMatrix (rlTranslatef x y z S)
     = rlMatrixMultiply (matTranslation x y z) (get_currentMatrix S)
   \<and> get_currentMatrix (rlRotatef angle x y z S)
     = rlMatrixMultiply (matRotation angle x y z) (get_currentMatrix S)
   \<and> get_currentMatrix (rlScalef x y z S)
     = rlMatrixMultiply (matScale x y z) (get_currentMatrix S)
   \<and> get_currentMatrix (rlMultMatrixf matf S)
     = rlMatrixMultiply (get_currentMatrix S) (matFromArray matf)
   \<and> get_currentMatrix (rlFrustum lft rgt btm tp znear zfar S)
     = rlMatrixMultiply (get_currentMatrix S) (matFrustum lft rgt btm tp znear zfar)
   \<and> get_currentMatrix (rlOrtho lft rgt btm tp znear zfar S)
     = rlMatrixMultiply (get_currentMatrix S) (matOrtho lft rgt btm tp znear zfar)
   \<and> currentMatrix (rlTranslatef x y z S) = currentMatrix S
   \<and> currentMatrix (rlRotatef angle x y z S) = currentMatrix S
   \<and> currentMatrix (rlScalef x y z S) = currentMatrix S
   \<and> currentMatrix (rlMultMatrixf matf S) = currentMatrix S
   \<and> currentMatrix (rlFrustum lft rgt btm tp znear zfar S) = currentMatrix S
   \<and> currentMatrix (rlOrtho lft rgt btm tp znear zfar S) = currentMatrix S"
  unfolding rlTranslatef_def rlRotatef_def rlScalef_def rlMultMatrixf_def rlFrustum_def
    rlOrtho_def
  by (simp only: get_set_currentMatrix currentMatrix_set_currentMatrix simp_thms)

subsection \<open>State after a flush\<close>

lemma draw_eye_defaultTexture [simp]:
  "defaultTexture (snd (draw_eye batch mv n eye S)) = defaultTexture S"
  by (simp add: draw_eye_def Let_def rlSetMatrixProjection_def rlSetMatrixModelview_def
      rlViewport_def)

lemma draw_eyes_defaultTexture [simp]:
  "defaultTexture (snd (draw_eyes batch mv n eyes S)) = defaultTexture S"
proof (induction eyes arbitrary: S)
  case Nil
  show ?case by simp
next
  case (Cons eye eyes)
  have "defaultTexture (snd (draw_eyes batch mv n eyes (snd (draw_eye batch mv n eye S))))
        = defaultTexture (snd (draw_eye batch mv n eye S))"
    by (rule Cons.IH)
  then show ?case by (simp add: split_beta Let_def)
qed

lemma rlLoadRenderBatch_currentDepth:
  "rlLoadRenderBatch nb ne g = Inr (b0, g0) \<Longrightarrow> currentDepth b0 = - 1"
  by (auto simp: rlLoadRenderBatch_def split: if_splits)

lemma rlDrawRenderBatch_batch:
  assumes "rlDrawRenderBatch batch S = (calls, batch', S')"
  shows "batch' = batch
           \<lparr>currentDepth := - 1,
            draws := map (reset_draw (defaultTexture S)) (draws batch),
            drawCounter := 1,
            currentBuffer := (if currentBuffer batch + 1 \<ge> bufferCount batch then 0
                              else currentBuffer batch + 1)\<rparr>"
  using assms
    draw_eyes_defaultTexture [of batch "modelview S" "if stereoRender S then 2 else 1"
      "map int [0..<nat (if stereoRender S then 2 else 1)]" S]
  by (simp add: rlDrawRenderBatch_def Let_def split_beta rlViewport_def split: if_splits)

lemma rlDrawRenderBatch_State:
  assumes "rlDrawRenderBatch batch S = (calls, batch', S')"
  shows "vertexCounter S' = 0 \<and> modelview S' = modelview S \<and> projection S' = projection S
       \<and> activeTextureId S' = replicate (nat RL_DEFAULT_BATCH_MAX_TEXTURE_UNITS) 0
       \<and> defaultTexture S' = defaultTexture S"
  using assms
    draw_eyes_defaultTexture [of batch "modelview S" "if stereoRender S then 2 else 1"
      "map int [0..<nat (if stereoRender S then 2 else 1)]" S]
  by (auto simp add: rlDrawRenderBatch_def Let_def split_beta rlViewport_def split: if_splits)

text \<open>
  C5. After \<^verbatim>\<open>rlDrawRenderBatch\<close> on a batch whose buffer index is in range and whose
  draw-call table has its allocated length: the vertex counter is 0; the depth is \<open>-1\<close>, the
  value every freshly loaded batch has; the draw counter is 1 and every entry of the table,
  the one in progress included, has mode QUADS, no vertices and the default texture; the
  active texture slots are all 0; the buffer index has advanced by one modulo the buffer
  count; modelview and projection are what they were before the call, whatever the stereo
  eyes substituted in between.
\<close>

theorem rlDrawRenderBatch_resets:
  assumes r: "rlDrawRenderBatch batch S = (calls, batch', S')"
      and lo: "0 \<le> currentBuffer batch"
      and hi: "currentBuffer batch < bufferCount batch"
      and len: "int (length (draws batch)) = RL_DEFAULT_BATCH_DRAWCALLS"
  shows "vertexCounter S' = 0
       \<and> currentDepth batch' = - 1
       \<and> (\<forall>nb ne g b0 g0. rlLoadRenderBatch nb ne g = Inr (b0, g0)
             \<longrightarrow> currentDepth batch' = currentDepth b0)
       \<and> drawCounter batch' = 1
       \<and> int (length (draws batch')) = RL_DEFAULT_BATCH_DRAWCALLS
       \<and> (\<forall>d \<in> set (draws batch').
             mode d = RL_QUADS \<and> vertexCount d = 0 \<and> texture d = defaultTexture S)
       \<and> mode (draws batch' ! nat (drawCounter batch' - 1)) = RL_QUADS
       \<and> vertexCount (draws batch' ! nat (drawCounter batch' - 1)) = 0
       \<and> texture (draws batch' ! nat (drawCounter batch' - 1)) = defaultTexture S
       \<and> defaultTexture S' = defaultTexture S
       \<and> activeTextureId S' = replicate (nat RL_DEFAULT_BATCH_MAX_TEXTURE_UNITS) 0
       \<and> currentBuffer batch' = (currentBuffer batch + 1) mod bufferCount batch
       \<and> modelview S' = modelview S
       \<and> projection S' = projection S"
proof -
  note b = rlDrawRenderBatch_batch [OF r]
  note s = rlDrawRenderBatch_State [OF r]
  have d1: "currentDepth batch' = - 1" and dc: "drawCounter batch' = 1"
    and dl: "length (draws batch') = length (draws batch)"
    using b by simp_all
  have ds: "\<forall>d \<in> set (draws batch').
              mode d = RL_QUADS \<and> vertexCount d = 0 \<and> texture d = defaultTexture S"
    using b by (auto simp: reset_draw_def)
  have pos: "0 < length (draws batch')"
    using dl len by (simp add: RL_DEFAULT_BATCH_DRAWCALLS_def)
  then have d0: "draws batch' ! nat (drawCounter batch' - 1) \<in> set (draws batch')"
    using dc by simp
  have cb: "currentBuffer batch' = (currentBuffer batch + 1) mod bufferCount batch"
  proof (cases "currentBuffer batch + 1 \<ge> bufferCount batch")
    case True
    then have "currentBuffer batch + 1 = bufferCount batch" using hi by simp
    then show ?thesis using b by simp
  next
    case False
    then show ?thesis using b lo by simp
  qed
  show ?thesis
    using s d1 dc dl len ds d0 cb rlLoadRenderBatch_currentDepth by simp
qed

theorem rlDrawRenderBatch_resets_witness:
  "(case rlDrawRenderBatch (currentBatch stereo_renderer) (State stereo_renderer) of
      (calls, batch', S') \<Rightarrow>
        0 \<le> currentBuffer (currentBatch stereo_renderer)
      \<and> currentBuffer (currentBatch stereo_renderer) < bufferCount (currentBatch stereo_renderer)
      \<and> int (length (draws (currentBatch stereo_renderer))) = RL_DEFAULT_BATCH_DRAWCALLS
      \<and> vertexCounter (State stereo_renderer) = 6
      \<and> drawCounter (currentBatch stereo_renderer) = 2
      \<and> stereoRender (State stereo_renderer)
      \<and> vertexCounter S' = 0
      \<and> currentDepth batch' = - 1
      \<and> drawCounter batch' = 1
      \<and> (\<forall>d \<in> set (draws batch'). mode d = RL_QUADS \<and> vertexCount d = 0 \<and> texture d = 1)
      \<and> activeTextureId S' = [0, 0, 0, 0]
      \<and> currentBuffer batch' = 1
      \<and> modelview S' = rlMatrixIdentity
      \<and> projection S' = rlMatrixIdentity)"
proof -
  obtain calls batch' S' where
    r: "rlDrawRenderBatch (currentBatch stereo_renderer) (State stereo_renderer)
        = (calls, batch', S')"
    by (metis prod_cases3)
  have lo: "0 \<le> currentBuffer (currentBatch stereo_renderer)" by code_simp
  have hi: "currentBuffer (currentBatch stereo_renderer)
            < bufferCount (currentBatch stereo_renderer)"
    by code_simp
  have len: "int (length (draws (currentBatch stereo_renderer))) = RL_DEFAULT_BATCH_DRAWCALLS"
    by code_simp
  have facts: "vertexCounter (State stereo_renderer) = 6"
    "drawCounter (currentBatch stereo_renderer) = 2"
    "stereoRender (State stereo_renderer)"
    "currentBuffer (currentBatch stereo_renderer) = 0"
    "bufferCount (currentBatch stereo_renderer) = 2"
    "defaultTexture (State stereo_renderer) = 1"
    "modelview (State stereo_renderer) = rlMatrixIdentity"
    "projection (State stereo_renderer) = rlMatrixIdentity"
    by code_simp+
  show ?thesis
    using rlDrawRenderBatch_resets [OF r lo hi len] r lo hi len facts
    by (simp add: RL_DEFAULT_BATCH_MAX_TEXTURE_UNITS_def numeral_eq_Suc)
qed

subsection \<open>The index pattern\<close>

declare fill_indices.simps [simp del]

lemma fill_indices_length [simp]: "length (fill_indices j k n idx) = length idx"
proof (induction j k n idx rule: fill_indices.induct)
  case (1 j k n idx)
  show ?case
  proof (cases "j < 6 * n")
    case True
    then show ?thesis using 1 by (subst fill_indices.simps) simp
  next
    case False
    then show ?thesis by (subst fill_indices.simps) simp
  qed
qed



subsection \<open>What the vertex API leaves alone\<close>

lemma vertexBuffer_rlDrawRenderBatchActive [simp]:
  "vertexBuffer (currentBatch (rlDrawRenderBatchActive g)) = vertexBuffer (currentBatch g)"
proof -
  obtain calls b S where r: "rlDrawRenderBatch (currentBatch g) (State g) = (calls, b, S)"
    by (metis prod_cases3)
  show ?thesis
    using rlDrawRenderBatch_batch [OF r] r by (simp add: rlDrawRenderBatchActive_def)
qed

lemma vertexBuffer_update_draw [simp]:
  "vertexBuffer (currentBatch (update_draw i f g)) = vertexBuffer (currentBatch g)"
  by (simp add: update_draw_def)

lemma vertexBuffer_rlCheckRenderBatchLimit [simp]:
  "vertexBuffer (currentBatch (snd (rlCheckRenderBatchLimit v g))) = vertexBuffer (currentBatch g)"
  by (simp add: rlCheckRenderBatchLimit_def Let_def)

lemma vertexBuffer_rlVertex3f_limit [simp]:
  "vertexBuffer (currentBatch (rlVertex3f_limit g)) = vertexBuffer (currentBatch g)"
  by (simp add: rlVertex3f_limit_def Let_def)

lemma vertexBuffer_rlEnd [simp]:
  "vertexBuffer (currentBatch (rlEnd g)) = vertexBuffer (currentBatch g)"
  by (simp add: rlEnd_def)

lemma vertexBuffer_rlBegin [simp]:
  "vertexBuffer (currentBatch (rlBegin md u g)) = vertexBuffer (currentBatch g)"
  by (simp add: rlBegin_def Let_def split_beta)

lemma vertexBuffer_rlSetTexture [simp]:
  "vertexBuffer (currentBatch (rlSetTexture t g)) = vertexBuffer (currentBatch g)"
  by (simp add: rlSetTexture_def Let_def split_beta split: option.splits)









subsection \<open>Loading a batch and the global vertex counter\<close>

text \<open>
  C10. \<^verbatim>\<open>rlLoadRenderBatch\<close> with at least one buffer sets the global vertex counter to 0 and
  changes nothing else of the renderer: the active batch, with the vertices and the vertex
  counts of its draw-call entries, is as before, only their global count is lost.
\<close>

theorem rlLoadRenderBatch_resets_vertexCounter:
  assumes "0 < numBuffers"
      and "rlLoadRenderBatch numBuffers bufferElements g = Inr (batch, g')"
  shows "vertexCounter (State g') = 0 \<and> currentBatch g' = currentBatch g
       \<and> g' = g\<lparr>State := (State g)\<lparr>vertexCounter := 0\<rparr>\<rparr>"
  using assms by (auto simp: rlLoadRenderBatch_def split: if_splits)

theorem rlLoadRenderBatch_resets_vertexCounter_witness:
  "(case rlLoadRenderBatch 1 4 three_pending of
      Inl e \<Rightarrow> False
    | Inr (batch, g') \<Rightarrow>
        (0::int) < 1
      \<and> vertexCounter (State three_pending) = 3
      \<and> vertexCount (current_draw three_pending) = 3
      \<and> vertexCounter (State g') = 0
      \<and> vertexCount (current_draw g') = 3)"
proof -
  obtain batch g' where l: "rlLoadRenderBatch 1 4 three_pending = Inr (batch, g')"
    by (simp add: rlLoadRenderBatch_def INT_MAX_def INT_MIN_def)
  have facts: "vertexCounter (State three_pending) = 3"
    "vertexCount (current_draw three_pending) = 3"
    by code_simp+
  have pos: "(0::int) < 1" by simp
  show ?thesis
    using rlLoadRenderBatch_resets_vertexCounter [OF pos l] l facts by (simp add: current_draw_def draw_at_def)
qed

subsection \<open>Flushing the active batch\<close>

lemma rlDrawRenderBatchActive_currentBatch:
  "currentBatch (rlDrawRenderBatchActive g) =
     (currentBatch g)
       \<lparr>currentDepth := - 1,
        draws := map (reset_draw (defaultTexture (State g))) (draws (currentBatch g)),
        drawCounter := 1,
        currentBuffer := (if currentBuffer (currentBatch g) + 1 \<ge> bufferCount (currentBatch g)
                          then 0 else currentBuffer (currentBatch g) + 1)\<rparr>"
proof -
  obtain calls b S where r: "rlDrawRenderBatch (currentBatch g) (State g) = (calls, b, S)"
    by (metis prod_cases3)
  show ?thesis
    using rlDrawRenderBatch_batch [OF r] r by (simp add: rlDrawRenderBatchActive_def)
qed

lemma rlDrawRenderBatchActive_State:
  "vertexCounter (State (rlDrawRenderBatchActive g)) = 0
   \<and> defaultTexture (State (rlDrawRenderBatchActive g)) = defaultTexture (State g)"
proof -
  obtain calls b S where r: "rlDrawRenderBatch (currentBatch g) (State g) = (calls, b, S)"
    by (metis prod_cases3)
  show ?thesis
    using rlDrawRenderBatch_State [OF r] r by (simp add: rlDrawRenderBatchActive_def)
qed

subsection \<open>The forced flush of \<^verbatim>\<open>rlCheckRenderBatchLimit\<close>\<close>

text \<open>
  When the limit is reached, the flush resets every entry and sets the draw counter to 1; the
  saved mode and texture are then written to the entry that was in progress before the flush.
  That entry is the one in progress afterwards only if the draw counter was 1.
\<close>

lemma rlCheckRenderBatchLimit_overflow:
  assumes "vertexCounter (State g) + v \<ge> elementCount (current_vertex_buffer g) * 4"
  shows "drawCounter (currentBatch (snd (rlCheckRenderBatchLimit v g))) = 1"
    and "draws (currentBatch (snd (rlCheckRenderBatchLimit v g))) =
           (map (reset_draw (defaultTexture (State g))) (draws (currentBatch g)))
             [nat (drawCounter (currentBatch g) - 1) :=
                (reset_draw (defaultTexture (State g)) (current_draw g))
                  \<lparr>mode := mode (current_draw g), texture := texture (current_draw g)\<rparr>]"
proof -
  show "drawCounter (currentBatch (snd (rlCheckRenderBatchLimit v g))) = 1"
    using assms
    by (simp add: rlCheckRenderBatchLimit_def Let_def update_draw_def
        rlDrawRenderBatchActive_currentBatch)
  show "draws (currentBatch (snd (rlCheckRenderBatchLimit v g))) =
           (map (reset_draw (defaultTexture (State g))) (draws (currentBatch g)))
             [nat (drawCounter (currentBatch g) - 1) :=
                (reset_draw (defaultTexture (State g)) (current_draw g))
                  \<lparr>mode := mode (current_draw g), texture := texture (current_draw g)\<rparr>]"
  proof (cases "nat (drawCounter (currentBatch g) - 1) < length (draws (currentBatch g))")
    case True
    then show ?thesis
      using assms
      by (simp add: rlCheckRenderBatchLimit_def Let_def update_draw_def draw_at_def
          current_draw_def rlDrawRenderBatchActive_currentBatch)
  next
    case False
    then show ?thesis
      using assms
      by (simp add: rlCheckRenderBatchLimit_def Let_def update_draw_def draw_at_def
          current_draw_def rlDrawRenderBatchActive_currentBatch list_update_beyond)
  qed
qed

lemma rlCheckRenderBatchLimit_keeps_first_entry:
  assumes "vertexCounter (State g) + v \<ge> elementCount (current_vertex_buffer g) * 4"
      and "drawCounter (currentBatch g) = 1"
      and "draws (currentBatch g) \<noteq> []"
  shows "mode (current_draw (snd (rlCheckRenderBatchLimit v g))) = mode (current_draw g)
       \<and> texture (current_draw (snd (rlCheckRenderBatchLimit v g))) = texture (current_draw g)
       \<and> vertexCount (current_draw (snd (rlCheckRenderBatchLimit v g))) = 0"
  using assms rlCheckRenderBatchLimit_overflow [OF assms(1)]
  by (simp add: current_draw_def draw_at_def reset_draw_def)

lemma rlCheckRenderBatchLimit_loses_later_entry:
  assumes "vertexCounter (State g) + v \<ge> elementCount (current_vertex_buffer g) * 4"
      and "1 < drawCounter (currentBatch g)"
      and "draws (currentBatch g) \<noteq> []"
  shows "mode (current_draw (snd (rlCheckRenderBatchLimit v g))) = RL_QUADS
       \<and> texture (current_draw (snd (rlCheckRenderBatchLimit v g))) = defaultTexture (State g)"
  using assms rlCheckRenderBatchLimit_overflow [OF assms(1)]
  by (simp add: current_draw_def draw_at_def reset_draw_def)

text \<open>
  C1. The claim: the forced flush of \<^verbatim>\<open>rlVertex3f\<close> leaves an entry in progress that has the
  mode and the texture of the entry in progress before the flush, and no vertices. The code
  does this only while the batch is at its first entry. In \<open>two_full_quads\<close> the buffer is
  full and the entry in progress is the second one, QUADS with four vertices and texture 5;
  the limit test of the next \<^verbatim>\<open>rlVertex3f\<close> flushes, and the entry in progress afterwards
  has the default texture 1, while texture 5 sits in the second entry, which is no longer in
  use. In \<open>pending_line\<close> the entry in progress is LINES with two vertices and texture 5;
  after the forced flush the entry in progress is QUADS with texture 1.
\<close>

theorem forced_flush_restores_stale_entry:
  "rl_run (vertices_n 4 @ [SetTexture (Some 5)] @ vertices_n 4) renderer_1x2
     = Inr two_full_quads
   \<and> elementCount (current_vertex_buffer two_full_quads) * 4 - 4
       < vertexCounter (State two_full_quads)
   \<and> drawCounter (currentBatch two_full_quads) = 2
   \<and> mode (current_draw two_full_quads) = RL_QUADS
   \<and> vertexCount (current_draw two_full_quads) smod 4 = 0
   \<and> texture (current_draw two_full_quads) = 5
   \<and> gl_trace two_full_quads = []
   \<and> gl_trace (rlVertex3f_limit two_full_quads)
       = [GlBindTexture 1, GlDrawElements 6 0, GlBindTexture 5, GlDrawElements 6 24]
   \<and> vertexCounter (State (rlVertex3f_limit two_full_quads)) = 0
   \<and> drawCounter (currentBatch (rlVertex3f_limit two_full_quads)) = 1
   \<and> vertexCount (current_draw (rlVertex3f_limit two_full_quads)) = 0
   \<and> texture (current_draw (rlVertex3f_limit two_full_quads)) = 1
   \<and> texture (draw_at (rlVertex3f_limit two_full_quads) 1) = 5
   \<and> rl_run (vertices_n 4 @ [SetTexture (Some 5), Begin RL_LINES 0, SetTexture (Some 5)]
              @ vertices_n 2) renderer_1x2
     = Inr pending_line
   \<and> elementCount (current_vertex_buffer pending_line) * 4 - 4
       < vertexCounter (State pending_line)
   \<and> mode (current_draw pending_line) = RL_LINES
   \<and> vertexCount (current_draw pending_line) smod 2 = 0
   \<and> texture (current_draw pending_line) = 5
   \<and> vertexCounter (State (rlVertex3f_limit pending_line)) = 0
   \<and> mode (current_draw (rlVertex3f_limit pending_line)) = RL_QUADS
   \<and> texture (current_draw (rlVertex3f_limit pending_line)) = 1"
  by code_simp

subsection \<open>\<^verbatim>\<open>rlBegin\<close> and the vertex count of the entry\<close>

text \<open>
  While the entry in progress is neither LINES nor TRIANGLES, \<^verbatim>\<open>rlBegin\<close> depends on the
  indeterminate value only through its sign.
\<close>

lemma rlBegin_sign:
  "mode (current_draw g) \<noteq> RL_LINES \<Longrightarrow> mode (current_draw g) \<noteq> RL_TRIANGLES \<Longrightarrow>
   rlBegin md u g = rlBegin md (if u > 0 then 1 else 0) g"
  by (cases "nat (drawCounter (currentBatch g) - 1) < length (draws (currentBatch g))")
    (simp_all add: rlBegin_def Let_def update_draw_def draw_at_def current_draw_def
      alignment_for_def list_update_beyond)

text \<open>
  C3. The claim: after \<^verbatim>\<open>rlBegin\<close> with a mode other than that of the entry in progress, the
  entry in progress has the requested mode, no vertices and the default texture. In
  \<open>two_full_quads\<close> (entry in progress: QUADS, four vertices) it fails for
  \<^verbatim>\<open>rlBegin(RL_TRIANGLES)\<close> whatever value the uninitialised local holds. With a value \<open>\<le> 0\<close>
  the mode is written into the entry in progress and its four vertices stay counted, since
  \<^verbatim>\<open>vertex_count = 0\<close> assigns the local. With a value \<open>> 0\<close> (4 is the entry's real count)
  the limit test flushes and the mode is written through the pointer taken before the flush,
  into the second entry; the entry in progress is the first one and is QUADS.
\<close>

theorem rlBegin_entry_not_fresh:
  "rl_run (vertices_n 4 @ [SetTexture (Some 5)] @ vertices_n 4) renderer_1x2
     = Inr two_full_quads
   \<and> mode (current_draw two_full_quads) \<noteq> RL_TRIANGLES
   \<and> (\<forall>u. \<not> (mode (current_draw (rlBegin RL_TRIANGLES u two_full_quads)) = RL_TRIANGLES
              \<and> vertexCount (current_draw (rlBegin RL_TRIANGLES u two_full_quads)) = 0
              \<and> texture (current_draw (rlBegin RL_TRIANGLES u two_full_quads))
                  = defaultTexture (State two_full_quads)))
   \<and> mode (current_draw (rlBegin RL_TRIANGLES 0 two_full_quads)) = RL_TRIANGLES
   \<and> vertexCount (current_draw (rlBegin RL_TRIANGLES 0 two_full_quads)) = 4
   \<and> mode (current_draw (rlBegin RL_TRIANGLES 4 two_full_quads)) = RL_QUADS
   \<and> mode (draw_at (rlBegin RL_TRIANGLES 4 two_full_quads) 1) = RL_TRIANGLES"
proof -
  have reach: "rl_run (vertices_n 4 @ [SetTexture (Some 5)] @ vertices_n 4) renderer_1x2
     = Inr two_full_quads"
    by code_simp
  have m: "mode (current_draw two_full_quads) \<noteq> RL_LINES"
    "mode (current_draw two_full_quads) \<noteq> RL_TRIANGLES"
    by code_simp+
  have zero: "vertexCount (current_draw (rlBegin RL_TRIANGLES 0 two_full_quads)) = 4"
    "mode (current_draw (rlBegin RL_TRIANGLES 0 two_full_quads)) = RL_TRIANGLES"
    by code_simp+
  have one: "mode (current_draw (rlBegin RL_TRIANGLES 1 two_full_quads)) = RL_QUADS"
    by code_simp
  have four: "mode (current_draw (rlBegin RL_TRIANGLES 4 two_full_quads)) = RL_QUADS"
    "mode (draw_at (rlBegin RL_TRIANGLES 4 two_full_quads) 1) = RL_TRIANGLES"
    by code_simp+
  have all: "\<not> (mode (current_draw (rlBegin RL_TRIANGLES u two_full_quads)) = RL_TRIANGLES
              \<and> vertexCount (current_draw (rlBegin RL_TRIANGLES u two_full_quads)) = 0
              \<and> texture (current_draw (rlBegin RL_TRIANGLES u two_full_quads))
                  = defaultTexture (State two_full_quads))" for u
  proof (cases "u > 0")
    case True
    then have "rlBegin RL_TRIANGLES u two_full_quads = rlBegin RL_TRIANGLES 1 two_full_quads"
      using rlBegin_sign [OF m, of RL_TRIANGLES u] by simp
    then show ?thesis using one by (simp add: RL_QUADS_def RL_TRIANGLES_def)
  next
    case False
    then have "rlBegin RL_TRIANGLES u two_full_quads = rlBegin RL_TRIANGLES 0 two_full_quads"
      using rlBegin_sign [OF m, of RL_TRIANGLES u] by simp
    then show ?thesis using zero by simp
  qed
  show ?thesis using reach m zero four all by blast
qed

subsection \<open>Writes past the vertex buffer\<close>

text \<open>
  C2. The claim: whatever the sequence of calls, a flush occurs before a vertex would be
  stored beyond \<open>capacity \<times> 4\<close> vertices. The sequence of \<open>eight_unflushed\<close> runs on a
  buffer of two quads: \<^verbatim>\<open>rlBegin(RL_LINES)\<close>, six vertices, \<^verbatim>\<open>rlBegin(RL_QUADS)\<close>, two
  vertices, \<^verbatim>\<open>rlBegin(RL_TRIANGLES)\<close>, each \<^verbatim>\<open>rlBegin\<close> reading 0 from its uninitialised local
  and so changing the mode of the one entry without closing it. Eight vertices are stored and
  nothing has been flushed. The entry is TRIANGLES with eight vertices, not a multiple of
  three, so the limit test of the next \<^verbatim>\<open>rlVertex3f\<close> does not flush, and the ninth vertex is
  stored at slot 8 of arrays that hold eight vertices.
\<close>

theorem ninth_vertex_stored_without_flush:
  "rl_run ([Begin RL_LINES 0] @ vertices_n 6 @ [Begin RL_QUADS 0] @ vertices_n 2
            @ [Begin RL_TRIANGLES 0]) renderer_1x2
     = Inr eight_unflushed
   \<and> elementCount (current_vertex_buffer eight_unflushed) * 4 = 8
   \<and> length (vertices (current_vertex_buffer eight_unflushed)) = 3 * 8
   \<and> length (texcoords (current_vertex_buffer eight_unflushed)) = 2 * 8
   \<and> length (colors (current_vertex_buffer eight_unflushed)) = 4 * 8
   \<and> vertexCounter (State eight_unflushed) = 8
   \<and> gl_trace eight_unflushed = []
   \<and> gl_trace (rlVertex3f_limit eight_unflushed) = []
   \<and> vertexCounter (State (rlVertex3f_limit eight_unflushed)) = 8
   \<and> rlVertex3f 0 0 0 eight_unflushed = Inl (VertexWriteOutOfBounds 8)"
  by code_simp

subsection \<open>Alignment padding\<close>

lemma vertexAlignment_reset_draw [simp]: "vertexAlignment (reset_draw t d) = vertexAlignment d"
  by (simp add: reset_draw_def)

lemma alignments_rlDrawRenderBatchActive [simp]:
  "map vertexAlignment (draws (currentBatch (rlDrawRenderBatchActive g)))
   = map vertexAlignment (draws (currentBatch g))"
  by (simp add: rlDrawRenderBatchActive_currentBatch comp_def)

lemma map_update_same:
  "f y = f (xs ! n) \<Longrightarrow> map f (xs[n := y]) = map f xs"
  by (cases "n < length xs")
    (simp_all add: map_update list_update_same_conv list_update_beyond)

lemma map_update_draw:
  "(\<And>d. f (h d) = f d) \<Longrightarrow>
   map f (draws (currentBatch (update_draw i h g))) = map f (draws (currentBatch g))"
  by (simp add: update_draw_def map_update_same)

lemma alignments_rlCheckRenderBatchLimit [simp]:
  "map vertexAlignment (draws (currentBatch (snd (rlCheckRenderBatchLimit v g))))
   = map vertexAlignment (draws (currentBatch g))"
  by (simp add: rlCheckRenderBatchLimit_def Let_def map_update_draw)

lemma alignments_set_alignment:
  "map vertexAlignment
     (draws (currentBatch (update_draw i (\<lambda>d. d\<lparr>vertexAlignment := a d\<rparr>) g)))
   = (map vertexAlignment (draws (currentBatch g)))[nat i := a (draws (currentBatch g) ! nat i)]"
  by (simp add: update_draw_def map_update)

text \<open>
  \<^verbatim>\<open>rlSetTexture\<close> with a texture other than that of the entry in progress, when that entry
  has vertices, records on it the padding computed from its mode and its vertex count, and
  changes no other recorded padding.
\<close>

lemma alignments_rlSetTexture:
  "map vertexAlignment (draws (currentBatch (rlSetTexture (Some t) g)))
   = (if texture (current_draw g) \<noteq> t \<and> 0 < vertexCount (current_draw g)
      then (map vertexAlignment (draws (currentBatch g)))
             [nat (drawCounter (currentBatch g) - 1) :=
                alignment_for (mode (current_draw g)) (vertexCount (current_draw g))]
      else map vertexAlignment (draws (currentBatch g)))"
  by (simp add: rlSetTexture_def Let_def split_beta map_update_draw alignments_set_alignment
      current_draw_def draw_at_def)

text \<open>
  \<^verbatim>\<open>rlBegin\<close> with a mode other than that of the entry in progress records a padding only
  when the indeterminate value \<open>u\<close> is positive, and computes it from \<open>u\<close>; the vertex count of
  the entry is not read.
\<close>

lemma alignments_rlBegin:
  "map vertexAlignment (draws (currentBatch (rlBegin md u g)))
   = (if mode (current_draw g) \<noteq> md \<and> 0 < u
      then (map vertexAlignment (draws (currentBatch g)))
             [nat (drawCounter (currentBatch g) - 1) := alignment_for (mode (current_draw g)) u]
      else map vertexAlignment (draws (currentBatch g)))"
  by (simp add: rlBegin_def Let_def split_beta map_update_draw alignments_set_alignment
      current_draw_def draw_at_def)

text \<open>
  The texture switch of the claim on a TRIANGLES entry with five vertices: three padding
  vertices are recorded, and the flush issues the next entry's quad at vertex offset 8, that
  is at byte offset \<open>8 / 4 * 6 * 4 = 48\<close> of the index buffer.
\<close>

lemma rlSetTexture_five_triangle_vertices:
  "vertexAlignment (draw_at (rlSetTexture (Some 5) five_triangle_vertices) 0) = 3
   \<and> vertexCounter (State (rlSetTexture (Some 5) five_triangle_vertices)) = 8
   \<and> trace_after ([SetTexture (Some 5)] @ vertices_n 4) five_triangle_vertices
       = [GlBindTexture 1, GlDrawArrays RL_TRIANGLES 0 5, GlBindTexture 5, GlDrawElements 6 48]"
  by code_simp

text \<open>
  C4. The claim: a mode switch or a texture switch that closes an entry with vertices records
  on it the padding given by its mode and vertex count; leaving a TRIANGLES entry with five
  vertices records 3, and the flush skips those three slots. For the texture switch this is
  \<open>alignments_rlSetTexture\<close>. For the mode switch the code fails: in
  \<open>five_triangle_vertices\<close> the entry in progress is TRIANGLES with five vertices, and
  \<^verbatim>\<open>rlBegin(RL_QUADS)\<close> records no padding when its uninitialised local reads 0 (the entry is
  not closed either: it becomes QUADS and keeps its five vertices, and a flush after four
  more vertices issues one indexed draw at offset 0 for all nine), records 1 when it reads 2,
  and records 3 only when it happens to read a value such as the real count 5.
\<close>

theorem rlBegin_alignment_from_indeterminate_value:
  "rl_run ([Begin RL_TRIANGLES 0] @ vertices_n 5) renderer_1x4 = Inr five_triangle_vertices
   \<and> mode (current_draw five_triangle_vertices) = RL_TRIANGLES
   \<and> vertexCount (current_draw five_triangle_vertices) = 5
   \<and> drawCounter (currentBatch five_triangle_vertices) = 1
   \<and> alignment_for RL_TRIANGLES 5 = 3
   \<and> vertexAlignment (draw_at (rlBegin RL_QUADS 0 five_triangle_vertices) 0) = 0
   \<and> drawCounter (currentBatch (rlBegin RL_QUADS 0 five_triangle_vertices)) = 1
   \<and> vertexCount (current_draw (rlBegin RL_QUADS 0 five_triangle_vertices)) = 5
   \<and> vertexCounter (State (rlBegin RL_QUADS 0 five_triangle_vertices)) = 5
   \<and> trace_after ([Begin RL_QUADS 0] @ vertices_n 4) five_triangle_vertices
       = [GlBindTexture 1, GlDrawElements 12 0]
   \<and> vertexAlignment (draw_at (rlBegin RL_QUADS 2 five_triangle_vertices) 0) = 1
   \<and> vertexCounter (State (rlBegin RL_QUADS 2 five_triangle_vertices)) = 6
   \<and> vertexAlignment (draw_at (rlBegin RL_QUADS 5 five_triangle_vertices) 0) = 3
   \<and> vertexCounter (State (rlBegin RL_QUADS 5 five_triangle_vertices)) = 8"
  by code_simp

end
